theory Spec2Isabelle
  imports Main
begin

section \<open>Python values and exceptions\<close>

text \<open>
  The processor \<^verbatim>\<open>GoToMeetingURLProvider\<close> works on the values that
  \<^verbatim>\<open>json.loads\<close> produces. A Python \<^verbatim>\<open>str\<close> is a list of characters
  (code points below 256), a \<^verbatim>\<open>dict\<close> is the list of its items in insertion
  order (keys distinct), an \<^verbatim>\<open>int\<close> is unbounded. A float \<open>Finite m e\<close> stands
  for \<open>m * 2 ^ e\<close>; only its truncation and its truth value are ever computed.
  The length limit of recent interpreters on decimal conversion is not modelled.
\<close>

type_synonym bytes = string

datatype pyfloat = Finite int int | Infinity | NaN

datatype pyval =
    PyNone
  | PyBool bool
  | PyInt int
  | PyFloat pyfloat
  | PyStr string
  | PyList "pyval list"
  | PyDict "(string \<times> pyval) list"

datatype value_error =
    JSONDecodeError
  | UnicodeDecodeError
  | EmptySequence
  | InvalidLiteral string
  | FloatNaN

datatype os_error = FileExistsError | FileNotFoundError | BadGzipFile | OtherOSError

text \<open>
  Every exception class that the code can meet. \<open>Raised name\<close> is any other class
  a collaborator may raise (\<^verbatim>\<open>zlib.error\<close>, \<^verbatim>\<open>EOFError\<close>, ...).
\<close>

datatype exn =
    ProcessorError string
  | KeyError string
  | TypeError
  | AttributeError
  | IndexError
  | OverflowError
  | ValueError value_error
  | OSError os_error
  | Raised string

text \<open>\<^verbatim>\<open>except ValueError\<close> and \<^verbatim>\<open>except OSError\<close> match on the class.\<close>

fun is_ValueError :: "exn \<Rightarrow> bool" where
  "is_ValueError (ValueError _) = True"
| "is_ValueError _ = False"

fun is_OSError :: "exn \<Rightarrow> bool" where
  "is_OSError (OSError _) = True"
| "is_OSError _ = False"

subsection \<open>\<^verbatim>\<open>int(x)\<close>\<close>

text \<open>
  \<^verbatim>\<open>int(s)\<close> on a string strips white space on both sides (the ASCII white space,
  and NEL and the no-break space), reads an optional sign and then decimal digits, where a
  single underscore may stand between two digits. Anything else is a \<^verbatim>\<open>ValueError\<close>.
\<close>

definition is_space :: "char \<Rightarrow> bool" where
  "is_space c = (of_char c \<in> {9, 10, 11, 12, 13, 32, 133, 160 :: nat})"

definition digit_val :: "char \<Rightarrow> nat option" where
  "digit_val c =
     (let n = (of_char c :: nat) in if 48 \<le> n \<and> n \<le> 57 then Some (n - 48) else None)"

definition strip :: "string \<Rightarrow> string" where
  "strip s = rev (dropWhile is_space (rev (dropWhile is_space s)))"

fun parse_digits :: "nat \<Rightarrow> string \<Rightarrow> nat option" where
  "parse_digits acc [] = Some acc"
| "parse_digits acc (c # cs) =
     (if c = CHR ''_'' then
        (case cs of
           [] \<Rightarrow> None
         | d # ds \<Rightarrow>
             (case digit_val d of
                None \<Rightarrow> None
              | Some v \<Rightarrow> parse_digits (acc * 10 + v) ds))
      else
        (case digit_val c of
           None \<Rightarrow> None
         | Some v \<Rightarrow> parse_digits (acc * 10 + v) cs))"

definition parse_unsigned :: "string \<Rightarrow> nat option" where
  "parse_unsigned s =
     (case s of
        [] \<Rightarrow> None
      | d # ds \<Rightarrow> (case digit_val d of None \<Rightarrow> None | Some v \<Rightarrow> parse_digits v ds))"

definition int_of_str :: "string \<Rightarrow> exn + int" where
  "int_of_str s =
     (let t = strip s;
          neg = (t \<noteq> [] \<and> hd t = CHR ''-'');
          body = (if t \<noteq> [] \<and> (hd t = CHR ''-'' \<or> hd t = CHR ''+'') then tl t else t)
      in case parse_unsigned body of
           None \<Rightarrow> Inl (ValueError (InvalidLiteral s))
         | Some n \<Rightarrow> Inr (if neg then - int n else int n))"

fun float_trunc :: "pyfloat \<Rightarrow> exn + int" where
  "float_trunc (Finite m e) =
     Inr (if 0 \<le> e then m * 2 ^ nat e
          else if 0 \<le> m then m div 2 ^ nat (- e)
          else - ((- m) div 2 ^ nat (- e)))"
| "float_trunc Infinity = Inl OverflowError"
| "float_trunc NaN = Inl (ValueError FloatNaN)"

fun py_int :: "pyval \<Rightarrow> exn + int" where
  "py_int (PyStr s) = int_of_str s"
| "py_int (PyInt n) = Inr n"
| "py_int (PyBool b) = Inr (if b then 1 else 0)"
| "py_int (PyFloat f) = float_trunc f"
| "py_int PyNone = Inl TypeError"
| "py_int (PyList _) = Inl TypeError"
| "py_int (PyDict _) = Inl TypeError"

subsection \<open>\<^verbatim>\<open>str(x)\<close>\<close>

fun str_of_nat :: "nat \<Rightarrow> string" where
  "str_of_nat n =
     (if n < 10 then [char_of (48 + n)]
      else str_of_nat (n div 10) @ [char_of (48 + n mod 10)])"

definition str_of_int :: "int \<Rightarrow> string" where
  "str_of_int i = (if i < 0 then CHR ''-'' # str_of_nat (nat (- i)) else str_of_nat (nat i))"

text \<open>
  \<^verbatim>\<open>str\<close> of a float, a list or a dict is their \<^verbatim>\<open>repr\<close>, Python's own
  formatting: it is the parameter \<open>py_repr\<close>.
\<close>

fun py_str :: "(pyval \<Rightarrow> string) \<Rightarrow> pyval \<Rightarrow> string" where
  "py_str py_repr (PyStr s) = s"
| "py_str py_repr (PyInt n) = str_of_int n"
| "py_str py_repr (PyBool b) = (if b then ''True'' else ''False'')"
| "py_str py_repr PyNone = ''None''"
| "py_str py_repr v = py_repr v"

subsection \<open>Truth values, subscripts, \<^verbatim>\<open>dict.get\<close>, iteration\<close>

fun py_truthy :: "pyval \<Rightarrow> bool" where
  "py_truthy PyNone = False"
| "py_truthy (PyBool b) = b"
| "py_truthy (PyInt n) = (n \<noteq> 0)"
| "py_truthy (PyFloat (Finite m e)) = (m \<noteq> 0)"
| "py_truthy (PyFloat _) = True"
| "py_truthy (PyStr s) = (s \<noteq> [])"
| "py_truthy (PyList xs) = (xs \<noteq> [])"
| "py_truthy (PyDict kvs) = (kvs \<noteq> [])"

text \<open>\<^verbatim>\<open>x[key]\<close> with a string key: only a dict accepts it.\<close>

fun py_getitem :: "pyval \<Rightarrow> string \<Rightarrow> exn + pyval" where
  "py_getitem (PyDict kvs) key =
     (case map_of kvs key of None \<Rightarrow> Inl (KeyError key) | Some v \<Rightarrow> Inr v)"
| "py_getitem _ key = Inl TypeError"

text \<open>\<^verbatim>\<open>x.get(key)\<close>: a method of dicts only; a missing key gives \<^verbatim>\<open>None\<close>.\<close>

fun py_get :: "pyval \<Rightarrow> string \<Rightarrow> exn + pyval" where
  "py_get (PyDict kvs) key =
     (case map_of kvs key of None \<Rightarrow> Inr PyNone | Some v \<Rightarrow> Inr v)"
| "py_get _ key = Inl AttributeError"

fun py_iter :: "pyval \<Rightarrow> exn + pyval list" where
  "py_iter (PyList xs) = Inr xs"
| "py_iter (PyStr s) = Inr (map (\<lambda>c. PyStr [c]) s)"
| "py_iter (PyDict kvs) = Inr (map (\<lambda>kv. PyStr (fst kv)) kvs)"
| "py_iter _ = Inl TypeError"

subsection \<open>\<^verbatim>\<open>max(iterable, key=f)\<close>\<close>

text \<open>
  The builtin walks the items once, applies the key function to each of them, and keeps
  an item only when its key is strictly greater than the best so far: among equal keys
  the first wins. An exception of the key function ends the walk.
\<close>

fun max_loop ::
  "(pyval \<Rightarrow> exn + int) \<Rightarrow> (pyval \<times> int) option \<Rightarrow> pyval list \<Rightarrow> exn + (pyval \<times> int) option"
where
  "max_loop key best [] = Inr best"
| "max_loop key best (item # items) =
     (case key item of
        Inl e \<Rightarrow> Inl e
      | Inr val \<Rightarrow>
          (case best of
             None \<Rightarrow> max_loop key (Some (item, val)) items
           | Some (maxitem, maxval) \<Rightarrow>
               if val > maxval then max_loop key (Some (item, val)) items
               else max_loop key best items))"

definition py_max :: "(pyval \<Rightarrow> exn + int) \<Rightarrow> pyval \<Rightarrow> exn + pyval" where
  "py_max key iterable =
     (case py_iter iterable of
        Inl e \<Rightarrow> Inl e
      | Inr items \<Rightarrow>
          (case max_loop key None items of
             Inl e \<Rightarrow> Inl e
           | Inr None \<Rightarrow> Inl (ValueError EmptySequence)
           | Inr (Some (maxitem, maxval)) \<Rightarrow> Inr maxitem))"

subsection \<open>\<^verbatim>\<open>s.split(sep)\<close>, \<^verbatim>\<open>sep.join(parts)\<close>, \<^verbatim>\<open>parts[-1] = v\<close>\<close>

fun split_on :: "char \<Rightarrow> string \<Rightarrow> string list" where
  "split_on sep [] = [[]]"
| "split_on sep (c # cs) =
     (if c = sep then [] # split_on sep cs
      else (case split_on sep cs of
              [] \<Rightarrow> [[c]]
            | p # ps \<Rightarrow> (c # p) # ps))"

fun py_split :: "pyval \<Rightarrow> char \<Rightarrow> exn + string list" where
  "py_split (PyStr s) sep = Inr (split_on sep s)"
| "py_split _ sep = Inl AttributeError"

fun py_join :: "string \<Rightarrow> string list \<Rightarrow> string" where
  "py_join sep [] = []"
| "py_join sep [p] = p"
| "py_join sep (p # ps) = p @ sep @ py_join sep ps"

definition set_last :: "'a list \<Rightarrow> 'a \<Rightarrow> exn + 'a list" where
  "set_last xs v = (if xs = [] then Inl IndexError else Inr (butlast xs @ [v]))"

section \<open>The collaborators and the state\<close>

text \<open>
  The network, the JSON decoder, the gzip reader and \<^verbatim>\<open>repr\<close> are not code of
  the processor: they are parameters.
\<close>

record library =
  fetch :: "string \<Rightarrow> exn + bytes"
  json_loads :: "bytes \<Rightarrow> exn + pyval"
  gzip_read :: "bytes \<Rightarrow> exn + bytes"
  repr :: "pyval \<Rightarrow> string"

text \<open>
  What a run can change: \<^verbatim>\<open>self.env\<close>, the directories and files on disk, and
  the lines printed by \<^verbatim>\<open>self.output\<close>.
\<close>

record world =
  env :: "string \<rightharpoonup> string"
  dirs :: "string set"
  files :: "string \<rightharpoonup> bytes"
  outputs :: "string list"

definition self_output :: "world \<Rightarrow> string \<Rightarrow> world" where
  "self_output w msg = w\<lparr>outputs := outputs w @ [msg]\<rparr>"

definition os_path_join :: "string \<Rightarrow> string \<Rightarrow> string" where
  "os_path_join a b =
     (if b \<noteq> [] \<and> hd b = CHR ''/'' then b
      else if a = [] \<or> last a = CHR ''/'' then a @ b
      else a @ ''/'' @ b)"

text \<open>
  \<^verbatim>\<open>os.makedirs(name)\<close> raises \<^verbatim>\<open>FileExistsError\<close>, an \<^verbatim>\<open>OSError\<close>, when
  the directory is there, and creates it otherwise. Other failures of the file system
  (permissions, a full disk) are not modelled.
\<close>

definition os_makedirs :: "world \<Rightarrow> string \<Rightarrow> (exn + unit) \<times> world" where
  "os_makedirs w name =
     (if name \<in> dirs w then (Inl (OSError FileExistsError), w)
      else (Inr (), w\<lparr>dirs := insert name (dirs w)\<rparr>))"

definition open_rb :: "world \<Rightarrow> string \<Rightarrow> exn + bytes" where
  "open_rb w path =
     (case files w path of None \<Rightarrow> Inl (OSError FileNotFoundError) | Some b \<Rightarrow> Inr b)"

text \<open>
  Modelled from the spec: \<^verbatim>\<open>URLGetter.download_to_file\<close> of the host framework,
  the spec's \<^verbatim>\<open>fetch(url, destination_path) -> local_file_path\<close>, which retrieves
  a URL into a local file and fails with a transport error.
\<close>

definition download_to_file :: "library \<Rightarrow> world \<Rightarrow> string \<Rightarrow> string \<Rightarrow> (exn + string) \<times> world" where
  "download_to_file lib w url filename =
     (case fetch lib url of
        Inl e \<Rightarrow> (Inl e, w)
      | Inr b \<Rightarrow> (Inr filename, w\<lparr>files := (files w)(filename \<mapsto> b)\<rparr>))"

section \<open>The processor\<close>

text \<open>The key of the scan, \<^verbatim>\<open>lambda x: int(x["buildNumber"])\<close>.\<close>

definition build_key :: "pyval \<Rightarrow> exn + int" where
  "build_key x =
     (case py_getitem x ''buildNumber'' of Inl e \<Rightarrow> Inl e | Inr v \<Rightarrow> py_int v)"

definition no_download_url :: string where
  "no_download_url =
     ''No download URL for the latest release found in the base_url JSON feed.''"

text \<open>Lines 89 to 102 of \<^verbatim>\<open>get_g2m_info\<close>: from the decoded feed to the pair.\<close>

definition latest_release :: "library \<Rightarrow> pyval \<Rightarrow> exn + string \<times> string" where
  "latest_release lib jsondata =
     (case py_getitem jsondata ''activeBuilds'' of
        Inl e \<Rightarrow> Inl e
      | Inr builds \<Rightarrow>
     (case py_max build_key builds of
        Inl e \<Rightarrow> Inl e
      | Inr max_build \<Rightarrow>
     (case py_get max_build ''macDownloadUrl'' of
        Inl e \<Rightarrow> Inl e
      | Inr g2m_url \<Rightarrow>
     if \<not> py_truthy g2m_url then Inl (ProcessorError no_download_url)
     else
     (case py_split g2m_url CHR ''/'' of
        Inl e \<Rightarrow> Inl e
      | Inr url_parts \<Rightarrow>
     (case set_last url_parts ''GoToMeeting.dmg'' of
        Inl e \<Rightarrow> Inl e
      | Inr url_parts' \<Rightarrow>
     (case py_getitem max_build ''buildNumber'' of
        Inl e \<Rightarrow> Inl e
      | Inr build_number \<Rightarrow>
          Inr (py_join ''/'' url_parts', py_str (repr lib) build_number)))))))"

text \<open>
  Lines 79 to 87: the file is read as JSON; on a \<^verbatim>\<open>ValueError\<close>, and on nothing
  else, it is opened again through gzip and read as JSON. Nothing catches what the
  second attempt raises.
\<close>

definition read_feed :: "library \<Rightarrow> world \<Rightarrow> string \<Rightarrow> (exn + pyval) \<times> world" where
  "read_feed lib w meta_file =
     (case open_rb w meta_file of
        Inl e \<Rightarrow> (Inl e, w)
      | Inr data \<Rightarrow>
          (case json_loads lib data of
             Inr jsondata \<Rightarrow> (Inr jsondata, self_output w ''Encoding: json'')
           | Inl e \<Rightarrow>
               if is_ValueError e then
                 (case open_rb w meta_file of
                    Inl e' \<Rightarrow> (Inl e', w)
                  | Inr zdata \<Rightarrow>
                      (case gzip_read lib zdata of
                         Inl e' \<Rightarrow> (Inl e', w)
                       | Inr raw \<Rightarrow>
                           (case json_loads lib raw of
                              Inl e' \<Rightarrow> (Inl e', w)
                            | Inr jsondata \<Rightarrow> (Inr jsondata, self_output w ''Encoding: gzip''))))
               else (Inl e, w)))"

text \<open>Lines 76 to 102: download, decode, select.\<close>

definition download_and_resolve ::
  "library \<Rightarrow> world \<Rightarrow> string \<Rightarrow> string \<Rightarrow> (exn + string \<times> string) \<times> world"
where
  "download_and_resolve lib w base_url meta_path =
     (case download_to_file lib w base_url meta_path of
        (Inl e, w') \<Rightarrow> (Inl e, w')
      | (Inr meta_file, w') \<Rightarrow>
          (case read_feed lib w' meta_file of
             (Inl e, w'') \<Rightarrow> (Inl e, w'')
           | (Inr jsondata, w'') \<Rightarrow> (latest_release lib jsondata, w'')))"

text \<open>
  \<^verbatim>\<open>get_g2m_info\<close>, lines 64 to 102. The \<^verbatim>\<open>OSError\<close> of \<^verbatim>\<open>os.makedirs\<close> is
  caught and dropped.
\<close>

definition get_g2m_info ::
  "library \<Rightarrow> world \<Rightarrow> string \<Rightarrow> (exn + string \<times> string) \<times> world"
where
  "get_g2m_info lib w base_url =
     (case env w ''RECIPE_CACHE_DIR'' of
        None \<Rightarrow> (Inl (KeyError ''RECIPE_CACHE_DIR''), w)
      | Some cache_dir \<Rightarrow>
          (let download_dir = os_path_join cache_dir ''downloads'';
               meta_path = os_path_join download_dir ''meta''
           in case os_makedirs w download_dir of
                (Inr u, w') \<Rightarrow> download_and_resolve lib w' base_url meta_path
              | (Inl e, w') \<Rightarrow>
                  if is_OSError e then download_and_resolve lib w' base_url meta_path
                  else (Inl e, w')))"

text \<open>
  \<^verbatim>\<open>main\<close>, lines 104 to 112. \<open>default_url\<close> is the value the module constant
  \<^verbatim>\<open>BASE_URL\<close> got when the module was loaded. \<^verbatim>\<open>self.output\<close> only prints.
\<close>

definition main :: "library \<Rightarrow> string \<Rightarrow> world \<Rightarrow> (exn + unit) \<times> world" where
  "main lib default_url w =
     (let base_url = (case env w ''base_url'' of None \<Rightarrow> default_url | Some u \<Rightarrow> u)
      in case get_g2m_info lib w base_url of
           (Inl e, w1) \<Rightarrow> (Inl e, w1)
         | (Inr (g2m_url, g2m_build), w1) \<Rightarrow>
             (let w2 = w1\<lparr>env := (env w1)(''url'' \<mapsto> g2m_url)\<rparr>;
                  w3 = self_output w2 (''Found URL: '' @ g2m_url);
                  w4 = w3\<lparr>env := (env w3)(''build'' \<mapsto> g2m_build)\<rparr>;
                  w5 = self_output w4 (''Build number: '' @ g2m_build)
              in (Inr (), w5)))"

section \<open>Loading the module\<close>

text \<open>
  Lines 33 to 44 run once, when the module is loaded. What they read from the machine is
  a parameter: whether it is a Mac, its system version, the version comparison of the host
  framework (\<^verbatim>\<open>APLooseVersion\<close>) and the resolver. \<^verbatim>\<open>socket.gethostbyname_ex\<close>
  returns the triple \<^verbatim>\<open>(hostname, aliaslist, ipaddrlist)\<close>: the primary host name,
  the other names, and the addresses; the code takes its component 0.
\<close>

record platform =
  is_mac :: bool
  mac_ver :: string
  version_less :: "string \<Rightarrow> string \<Rightarrow> bool"
  gethostbyname_ex :: "string \<Rightarrow> exn + string \<times> string list \<times> string list"

definition HOSTNAME :: "platform \<Rightarrow> exn + string" where
  "HOSTNAME p =
     (if is_mac p then
        (if version_less p (mac_ver p) ''10.13.0'' then
           (case gethostbyname_ex p ''builds.cdn.getgo.com'' of
              Inl e \<Rightarrow> Inl e
            | Inr (hostname, aliaslist, ipaddrlist) \<Rightarrow> Inr hostname)
         else Inr ''builds.cdn.getgo.com'')
      else Inr ''builds.cdn.getgo.com'')"

definition BASE_URL :: "platform \<Rightarrow> exn + string" where
  "BASE_URL p =
     (case HOSTNAME p of
        Inl e \<Rightarrow> Inl e
      | Inr h \<Rightarrow> Inr (''https://'' @ h @ ''/g2mupdater/live/config.json''))"

section \<open>Vocabulary of the properties\<close>

text \<open>
  The fetched bytes \<open>b\<close> decode to the document \<open>doc\<close>: as plain JSON, or, when the
  plain reading raises a \<^verbatim>\<open>ValueError\<close>, as gzip-compressed JSON.
\<close>

definition decodes :: "library \<Rightarrow> bytes \<Rightarrow> pyval \<Rightarrow> bool" where
  "decodes lib b doc =
     (case json_loads lib b of
        Inr v \<Rightarrow> v = doc
      | Inl e \<Rightarrow>
          is_ValueError e \<and>
          (case gzip_read lib b of Inl e' \<Rightarrow> False | Inr raw \<Rightarrow> json_loads lib raw = Inr doc))"

text \<open>A build number written in the feed as a JSON string or as a JSON integer.\<close>

fun is_str_or_int :: "pyval \<Rightarrow> bool" where
  "is_str_or_int (PyStr s) = True"
| "is_str_or_int (PyInt n) = True"
| "is_str_or_int _ = False"

text \<open>What lines 96 to 98 make of a URL string.\<close>

definition normalized_url :: "string \<Rightarrow> string" where
  "normalized_url u = py_join ''/'' (butlast (split_on CHR ''/'' u) @ [''GoToMeeting.dmg''])"

definition digits :: "string \<Rightarrow> bool" where
  "digits s = (s \<noteq> [] \<and> list_all (\<lambda>c. digit_val c \<noteq> None) s)"

section \<open>Example feeds\<close>

text \<open>
  Concrete feeds, their decoded documents, and a library that serves and decodes exactly
  them; every other text is not JSON for it, every other byte string not gzip. An empty
  file read through gzip gives no bytes, as the gzip reader has it.
\<close>

definition two_builds_feed :: bytes where
  \<open>two_builds_feed = ''{"activeBuilds":[{"buildNumber":"1000","macDownloadUrl":"https://cdn.example.com/1000/OldApp.dmg"},{"buildNumber":"1050","macDownloadUrl":"https://cdn.example.com/1050/NewApp.dmg"}]}''\<close>

definition two_builds_doc :: pyval where
  "two_builds_doc =
     PyDict [(''activeBuilds'', PyList
       [PyDict [(''buildNumber'', PyStr ''1000''),
                (''macDownloadUrl'', PyStr ''https://cdn.example.com/1000/OldApp.dmg'')],
        PyDict [(''buildNumber'', PyStr ''1050''),
                (''macDownloadUrl'', PyStr ''https://cdn.example.com/1050/NewApp.dmg'')]])]"

definition two_builds_gzip :: bytes where
  "two_builds_gzip = [CHR 0x1F, CHR 0x8B, CHR 0x08, CHR 0x00]"

definition missing_url_feed :: bytes where
  \<open>missing_url_feed = ''{"activeBuilds":[{"buildNumber":"1000","macDownloadUrl":"https://cdn.example.com/1000/App.dmg"},{"buildNumber":"1050"}]}''\<close>

definition missing_url_doc :: pyval where
  "missing_url_doc =
     PyDict [(''activeBuilds'', PyList
       [PyDict [(''buildNumber'', PyStr ''1000''),
                (''macDownloadUrl'', PyStr ''https://cdn.example.com/1000/App.dmg'')],
        PyDict [(''buildNumber'', PyStr ''1050'')]])]"

definition nine_ten_feed :: bytes where
  \<open>nine_ten_feed = ''{"activeBuilds":[{"buildNumber":"10","macDownloadUrl":"https://cdn.example.com/10/App.dmg"},{"buildNumber":"9","macDownloadUrl":"https://cdn.example.com/9/App.dmg"}]}''\<close>

definition nine_ten_doc :: pyval where
  "nine_ten_doc =
     PyDict [(''activeBuilds'', PyList
       [PyDict [(''buildNumber'', PyStr ''10''),
                (''macDownloadUrl'', PyStr ''https://cdn.example.com/10/App.dmg'')],
        PyDict [(''buildNumber'', PyStr ''9''),
                (''macDownloadUrl'', PyStr ''https://cdn.example.com/9/App.dmg'')]])]"

definition empty_builds_feed :: bytes where
  \<open>empty_builds_feed = ''{"activeBuilds":[]}''\<close>

definition empty_builds_doc :: pyval where
  "empty_builds_doc = PyDict [(''activeBuilds'', PyList [])]"

definition bad_number_feed :: bytes where
  \<open>bad_number_feed = ''{"activeBuilds":[{"buildNumber":"1050","macDownloadUrl":"https://cdn.example.com/1050/App.dmg"},{"buildNumber":"beta"}]}''\<close>

definition bad_number_doc :: pyval where
  "bad_number_doc =
     PyDict [(''activeBuilds'', PyList
       [PyDict [(''buildNumber'', PyStr ''1050''),
                (''macDownloadUrl'', PyStr ''https://cdn.example.com/1050/App.dmg'')],
        PyDict [(''buildNumber'', PyStr ''beta'')]])]"

definition example_site :: "(string \<times> bytes) list" where
  "example_site =
     [(''https://feed.example/two'', two_builds_feed),
      (''https://feed.example/two.gz'', two_builds_gzip),
      (''https://feed.example/missing'', missing_url_feed),
      (''https://feed.example/nine-ten'', nine_ten_feed),
      (''https://feed.example/empty'', empty_builds_feed),
      (''https://feed.example/bad'', bad_number_feed),
      (''https://feed.example/hello'', ''hello''),
      (''https://feed.example/blank'', [])]"

definition example_documents :: "(bytes \<times> pyval) list" where
  "example_documents =
     [(two_builds_feed, two_builds_doc),
      (missing_url_feed, missing_url_doc),
      (nine_ten_feed, nine_ten_doc),
      (empty_builds_feed, empty_builds_doc),
      (bad_number_feed, bad_number_doc)]"

definition example_library :: library where
  "example_library =
     \<lparr>fetch = (\<lambda>url. case map_of example_site url of
                 None \<Rightarrow> Inl (ProcessorError ''curl failed'')
               | Some b \<Rightarrow> Inr b),
      json_loads = (\<lambda>b. case map_of example_documents b of
                 None \<Rightarrow> Inl (ValueError JSONDecodeError)
               | Some d \<Rightarrow> Inr d),
      gzip_read = (\<lambda>z. if z = two_builds_gzip then Inr two_builds_feed
               else if z = [] then Inr []
               else Inl (OSError BadGzipFile)),
      repr = (\<lambda>v. [])\<rparr>"

text \<open>
  A feed of 200000 opening brackets, and an interpreter whose recursion limit the JSON
  decoder exceeds on it: \<^verbatim>\<open>json.loads\<close> raises \<^verbatim>\<open>RecursionError\<close>, which is no
  \<^verbatim>\<open>ValueError\<close>.
\<close>

definition deep_feed :: bytes where
  "deep_feed = replicate 200000 (CHR ''['')"

definition deep_library :: library where
  "deep_library =
     \<lparr>fetch = (\<lambda>url. Inr deep_feed),
      json_loads = (\<lambda>b. Inl (Raised ''RecursionError'')),
      gzip_read = (\<lambda>z. Inl (OSError BadGzipFile)),
      repr = (\<lambda>v. [])\<rparr>"

definition example_world :: world where
  "example_world =
     \<lparr>env = [''RECIPE_CACHE_DIR'' \<mapsto> ''/cache''], dirs = {}, files = Map.empty, outputs = []\<rparr>"

definition cached_world :: world where
  "cached_world = example_world\<lparr>dirs := {''/cache/downloads''}\<rparr>"

text \<open>
  A Mac on system 10.12.6 whose resolver answers with a primary host name, one alias and
  one address.
\<close>

definition legacy_mac :: platform where
  "legacy_mac =
     \<lparr>is_mac = True, mac_ver = ''10.12.6'',
      version_less = (\<lambda>a b. a = ''10.12.6'' \<and> b = ''10.13.0''),
      gethostbyname_ex = (\<lambda>h. if h = ''builds.cdn.getgo.com''
         then Inr (''edge.cdn.example.net'', [''builds.cdn.getgo.com''], [''203.0.113.7''])
         else Inl (OSError OtherOSError))\<rparr>"

section \<open>Lists, strings and numbers\<close>

lemma split_on_not_Nil: "split_on c s \<noteq> []"
  by (induction s) (auto split: list.splits)

lemma split_on_no_sep: "c \<notin> set s \<Longrightarrow> split_on c s = [s]"
  by (induction s) auto

lemma split_on_snoc:
  "c \<notin> set x \<Longrightarrow> \<exists>ps. split_on c (s @ c # x) = ps @ [x] \<and> ps \<noteq> []"
proof (induction s)
  case Nil
  then have "split_on c ([] @ c # x) = [[]] @ [x]"
    by (simp add: split_on_no_sep)
  then show ?case by blast
next
  case (Cons y s)
  then obtain p ps where ps: "split_on c (s @ c # x) = (p # ps) @ [x]"
    by (metis neq_Nil_conv)
  show ?case
  proof (cases "y = c")
    case True
    with ps have "split_on c ((y # s) @ c # x) = ([] # p # ps) @ [x]" by simp
    then show ?thesis by blast
  next
    case False
    with ps have "split_on c ((y # s) @ c # x) = ((y # p) # ps) @ [x]" by simp
    then show ?thesis by blast
  qed
qed

lemma last_split_on_append: "c \<notin> set x \<Longrightarrow> last (split_on c (s @ c # x)) = x"
  using split_on_snoc [of c x s] by auto

lemma py_join_snoc: "ps \<noteq> [] \<Longrightarrow> py_join sep (ps @ [x]) = py_join sep ps @ sep @ x"
  by (induction sep ps rule: py_join.induct) auto

lemma last_split_on_join:
  assumes "c \<notin> set x"
  shows "last (split_on c (py_join [c] (qs @ [x]))) = x"
proof (cases "qs = []")
  case True
  with assms show ?thesis by (simp add: split_on_no_sep)
next
  case False
  then have "py_join [c] (qs @ [x]) = py_join [c] qs @ c # x"
    by (simp add: py_join_snoc)
  with assms show ?thesis
    by (simp add: last_split_on_append)
qed

lemma Max_insert_insert:
  "finite S \<Longrightarrow> Max (insert (a::int) (insert b S)) = Max (insert (max a b) S)"
  by (cases "S = {}") (simp_all add: max.assoc)

lemma max_loop_Some:
  "map key xs = map Inr ks \<Longrightarrow>
   \<exists>m k. max_loop key (Some (a, ak)) xs = Inr (Some (m, k)) \<and>
         (m = a \<and> k = ak \<or> m \<in> set xs \<and> key m = Inr k) \<and>
         k = Max (insert ak (set ks))"
proof (induction xs arbitrary: a ak ks)
  case Nil
  then show ?case by simp
next
  case (Cons x xs)
  then obtain k0 ks' where ks: "ks = k0 # ks'" and k0: "key x = Inr k0"
    and rest: "map key xs = map Inr ks'"
    by (cases ks) auto
  show ?case
  proof (cases "k0 > ak")
    case True
    from Cons.IH [OF rest, of x k0] obtain m k where
      "max_loop key (Some (x, k0)) xs = Inr (Some (m, k))"
      "m = x \<and> k = k0 \<or> m \<in> set xs \<and> key m = Inr k"
      "k = Max (insert k0 (set ks'))" by blast
    moreover have "Max (insert ak (set ks)) = Max (insert k0 (set ks'))"
      using True by (simp add: ks Max_insert_insert max_def del: Max_insert)
    ultimately show ?thesis using True k0 by auto
  next
    case False
    from Cons.IH [OF rest, of a ak] obtain m k where
      "max_loop key (Some (a, ak)) xs = Inr (Some (m, k))"
      "m = a \<and> k = ak \<or> m \<in> set xs \<and> key m = Inr k"
      "k = Max (insert ak (set ks'))" by blast
    moreover have "Max (insert ak (set ks)) = Max (insert ak (set ks'))"
      using False by (simp add: ks Max_insert_insert max_def del: Max_insert)
    ultimately show ?thesis using False k0 by auto
  qed
qed

lemma max_loop_None:
  assumes "map key xs = map Inr ks" and "xs \<noteq> []"
  shows "\<exists>m. max_loop key None xs = Inr (Some (m, Max (set ks))) \<and>
             m \<in> set xs \<and> key m = Inr (Max (set ks))"
proof -
  from assms obtain x xs' k0 ks' where xs: "xs = x # xs'" and ks: "ks = k0 # ks'"
    and k0: "key x = Inr k0" and rest: "map key xs' = map Inr ks'"
    by (cases xs; cases ks) auto
  from max_loop_Some [OF rest, of x k0] obtain m k where
    "max_loop key (Some (x, k0)) xs' = Inr (Some (m, k))"
    "m = x \<and> k = k0 \<or> m \<in> set xs' \<and> key m = Inr k"
    "k = Max (insert k0 (set ks'))" by blast
  then show ?thesis using xs ks k0 by auto
qed

lemma max_loop_raises:
  "x \<in> set xs \<Longrightarrow> key x = Inl e0 \<Longrightarrow>
   \<exists>e y. max_loop key best xs = Inl e \<and> y \<in> set xs \<and> key y = Inl e"
proof (induction xs arbitrary: best)
  case Nil
  then show ?case by simp
next
  case (Cons z zs)
  show ?case
  proof (cases "key z")
    case (Inl e)
    then show ?thesis by auto
  next
    case (Inr v)
    with Cons.prems have "x \<in> set zs" by auto
    from Cons.IH [OF this Cons.prems(2)]
    have ih: "\<exists>e y. max_loop key b zs = Inl e \<and> y \<in> set zs \<and> key y = Inl e" for b .
    have "\<exists>b. max_loop key best (z # zs) = max_loop key b zs"
      using Inr by (cases best) auto
    then obtain b where "max_loop key best (z # zs) = max_loop key b zs" ..
    with ih [of b] show ?thesis by auto
  qed
qed

lemma digit_val_char_of: "d < 10 \<Longrightarrow> digit_val (char_of (48 + d)) = Some d"
  by (simp add: digit_val_def Let_def)

lemma digit_val_not_space: "digit_val c = Some d \<Longrightarrow> \<not> is_space c"
  by (auto simp: digit_val_def is_space_def Let_def split: if_splits)

lemma digit_val_not_sign: "digit_val c = Some d \<Longrightarrow> c \<noteq> CHR ''-'' \<and> c \<noteq> CHR ''+''"
  by (auto simp: digit_val_def Let_def split: if_splits)

lemma parse_digits_snoc:
  "parse_digits acc s = Some n \<Longrightarrow> digit_val c = Some d \<Longrightarrow>
   parse_digits acc (s @ [c]) = Some (n * 10 + d)"
proof (induction acc s rule: parse_digits.induct)
  case (1 acc)
  then show ?case by (auto simp: digit_val_def Let_def split: if_splits)
next
  case (2 acc x xs)
  then show ?case
    by (auto split: if_splits list.splits option.splits)
qed

lemma str_of_nat_digits: "digits (str_of_nat n)"
proof (induction n rule: str_of_nat.induct)
  case (1 n)
  show ?case
  proof (cases "n < 10")
    case True
    then show ?thesis
      by (subst str_of_nat.simps) (simp add: digits_def digit_val_char_of)
  next
    case False
    with 1 have "digits (str_of_nat (n div 10))" by simp
    moreover have "digit_val (char_of (48 + n mod 10)) = Some (n mod 10)"
      by (rule digit_val_char_of) simp
    ultimately show ?thesis using False
      by (subst str_of_nat.simps) (simp add: digits_def)
  qed
qed

lemma parse_unsigned_str_of_nat: "parse_unsigned (str_of_nat n) = Some n"
proof (induction n rule: str_of_nat.induct)
  case (1 n)
  show ?case
  proof (cases "n < 10")
    case True
    then show ?thesis
      by (subst str_of_nat.simps) (simp add: parse_unsigned_def digit_val_char_of)
  next
    case False
    with 1 have ih: "parse_unsigned (str_of_nat (n div 10)) = Some (n div 10)" by simp
    have d: "digit_val (char_of (48 + n mod 10)) = Some (n mod 10)"
      by (rule digit_val_char_of) simp
    obtain c cs where s: "str_of_nat (n div 10) = c # cs"
      using str_of_nat_digits [of "n div 10"] by (cases "str_of_nat (n div 10)") (auto simp: digits_def)
    from ih s obtain v where v: "digit_val c = Some v" "parse_digits v cs = Some (n div 10)"
      by (auto simp: parse_unsigned_def split: option.splits)
    from parse_digits_snoc [OF v(2) d]
    have "parse_digits v (cs @ [char_of (48 + n mod 10)]) = Some n" by simp
    with v(1) s False show ?thesis
      by (subst str_of_nat.simps) (simp add: parse_unsigned_def)
  qed
qed

lemma strip_no_space: "s \<noteq> [] \<Longrightarrow> \<not> is_space (hd s) \<Longrightarrow> \<not> is_space (last s) \<Longrightarrow> strip s = s"
proof -
  assume a: "s \<noteq> []" "\<not> is_space (hd s)" "\<not> is_space (last s)"
  then have "dropWhile is_space s = s" by (cases s) auto
  moreover from a have "dropWhile is_space (rev s) = rev s"
    by (cases "rev s") (auto simp: last_rev [symmetric] simp del: last_rev)
  ultimately show ?thesis by (simp add: strip_def)
qed

lemma digits_hd_last: "digits s \<Longrightarrow> (\<exists>d. digit_val (hd s) = Some d) \<and> (\<exists>d. digit_val (last s) = Some d)"
  using hd_in_set [of s] last_in_set [of s] by (auto simp: digits_def list_all_iff)

lemma int_of_str_str_of_int: "int_of_str (str_of_int i) = Inr i"
proof -
  let ?n = "str_of_nat (nat \<bar>i\<bar>)"
  have dg: "digits ?n" by (rule str_of_nat_digits)
  then have ne: "?n \<noteq> []" by (simp add: digits_def)
  from digits_hd_last [OF dg] obtain a b where
    a: "digit_val (hd ?n) = Some a" and b: "digit_val (last ?n) = Some b" by blast
  have pu: "parse_unsigned ?n = Some (nat \<bar>i\<bar>)" by (rule parse_unsigned_str_of_nat)
  show ?thesis
  proof (cases "i < 0")
    case True
    then have s: "str_of_int i = CHR ''-'' # ?n" by (simp add: str_of_int_def abs_if)
    have "strip (CHR ''-'' # ?n) = CHR ''-'' # ?n"
      using ne digit_val_not_space [OF b] by (intro strip_no_space) (simp_all add: is_space_def)
    with s pu True show ?thesis by (simp add: int_of_str_def)
  next
    case False
    then have s: "str_of_int i = ?n" by (simp add: str_of_int_def abs_if)
    have "strip ?n = ?n"
      using ne digit_val_not_space [OF a] digit_val_not_space [OF b] by (intro strip_no_space)
    with s pu False ne digit_val_not_sign [OF a] show ?thesis by (simp add: int_of_str_def)
  qed
qed

section \<open>The stages of the processor\<close>

lemma open_rb_written: "open_rb (w\<lparr>files := (files w)(p \<mapsto> b)\<rparr>) p = Inr b"
  by (simp add: open_rb_def)

lemma read_feed_decoded:
  "open_rb w p = Inr b \<Longrightarrow> decodes lib b doc \<Longrightarrow>
   fst (read_feed lib w p) = Inr doc \<and>
   (snd (read_feed lib w p) = self_output w ''Encoding: json'' \<or>
    snd (read_feed lib w p) = self_output w ''Encoding: gzip'')"
  by (auto simp: read_feed_def decodes_def split: sum.splits)

lemma read_feed_invalid:
  assumes "open_rb w p = Inr b"
    and "(\<exists>r. json_loads lib b = Inl (ValueError r)) \<and>
         (gzip_read lib b = Inl e \<or>
          (\<exists>raw. gzip_read lib b = Inr raw \<and> json_loads lib raw = Inl e)) \<or>
         json_loads lib b = Inl e \<and> \<not> is_ValueError e"
  shows "read_feed lib w p = (Inl e, w)"
  using assms by (auto simp: read_feed_def)

lemma download_and_resolve_fetched:
  "fetch lib url = Inr b \<Longrightarrow>
   download_and_resolve lib w url p =
     (case read_feed lib (w\<lparr>files := (files w)(p \<mapsto> b)\<rparr>) p of
        (Inl e, w'') \<Rightarrow> (Inl e, w'')
      | (Inr jsondata, w'') \<Rightarrow> (latest_release lib jsondata, w''))"
  by (simp add: download_and_resolve_def download_to_file_def)

lemma get_g2m_info_cached:
  "env w ''RECIPE_CACHE_DIR'' = Some c \<Longrightarrow>
   get_g2m_info lib w url =
     download_and_resolve lib (snd (os_makedirs w (os_path_join c ''downloads''))) url
       (os_path_join (os_path_join c ''downloads'') ''meta'')"
  by (simp add: get_g2m_info_def os_makedirs_def Let_def)

lemma get_g2m_info_decoded:
  assumes "env w ''RECIPE_CACHE_DIR'' = Some c"
    and "fetch lib url = Inr b"
    and "decodes lib b doc"
  shows "fst (get_g2m_info lib w url) = latest_release lib doc"
proof -
  let ?w = "snd (os_makedirs w (os_path_join c ''downloads''))"
  let ?p = "os_path_join (os_path_join c ''downloads'') ''meta''"
  let ?w' = "?w\<lparr>files := (files ?w)(?p \<mapsto> b)\<rparr>"
  obtain r w2 where rf: "read_feed lib ?w' ?p = (r, w2)"
    by (cases "read_feed lib ?w' ?p")
  from read_feed_decoded [OF open_rb_written assms(3), of ?w ?p] rf
  have "r = Inr doc" by simp
  with rf show ?thesis
    by (simp add: get_g2m_info_cached [OF assms(1)] download_and_resolve_fetched [OF assms(2)])
qed

lemma env_read_feed: "env (snd (read_feed lib w p)) = env w"
  by (simp add: read_feed_def self_output_def split: sum.splits)

lemma env_download_and_resolve: "env (snd (download_and_resolve lib w url p)) = env w"
proof (cases "fetch lib url")
  case (Inl e)
  then show ?thesis by (simp add: download_and_resolve_def download_to_file_def)
next
  case (Inr b)
  let ?w = "w\<lparr>files := (files w)(p \<mapsto> b)\<rparr>"
  obtain r w2 where rf: "read_feed lib ?w p = (r, w2)"
    by (cases "read_feed lib ?w p")
  from env_read_feed [of lib ?w p] rf have "env w2 = env w" by simp
  with rf show ?thesis
    by (cases r) (simp_all add: download_and_resolve_fetched [OF Inr])
qed

lemma env_get_g2m_info: "env (snd (get_g2m_info lib w url)) = env w"
  by (simp add: get_g2m_info_def os_makedirs_def Let_def env_download_and_resolve
      split: option.splits)

lemma latest_release_selected:
  assumes "py_getitem doc ''activeBuilds'' = Inr (PyList builds)"
    and "max_loop build_key None builds = Inr (Some (m, k))"
    and "py_get m ''macDownloadUrl'' = Inr (PyStr u)" and "u \<noteq> []"
    and "py_getitem m ''buildNumber'' = Inr v"
  shows "latest_release lib doc = Inr (normalized_url u, py_str (repr lib) v)"
  using assms
  by (simp add: latest_release_def py_max_def set_last_def split_on_not_Nil normalized_url_def)

lemma latest_release_no_url:
  assumes "py_getitem doc ''activeBuilds'' = Inr (PyList builds)"
    and "max_loop build_key None builds = Inr (Some (m, k))"
    and "py_get m ''macDownloadUrl'' = Inr g" and "\<not> py_truthy g"
  shows "latest_release lib doc = Inl (ProcessorError no_download_url)"
  using assms by (simp add: latest_release_def py_max_def)

lemma latest_release_raises:
  assumes "py_getitem doc ''activeBuilds'' = Inr (PyList builds)"
    and "max_loop build_key None builds = Inl e"
  shows "latest_release lib doc = Inl e"
  using assms by (simp add: latest_release_def py_max_def)

lemma build_key_Inr:
  "build_key x = Inr k \<Longrightarrow> \<exists>v. py_getitem x ''buildNumber'' = Inr v \<and> py_int v = Inr k"
  by (auto simp: build_key_def split: sum.splits)

lemma last_normalized_url: "last (split_on CHR ''/'' (normalized_url u)) = ''GoToMeeting.dmg''"
  unfolding normalized_url_def
  using last_split_on_join [of "CHR ''/''" "''GoToMeeting.dmg''" "butlast (split_on CHR ''/'' u)"]
  by simp

lemma int_of_py_str:
  "is_str_or_int v \<Longrightarrow> py_int v = Inr k \<Longrightarrow> int_of_str (py_str r v) = Inr k"
  by (cases v) (simp_all add: int_of_str_str_of_int)

lemma get_g2m_info_invalid:
  assumes "env w ''RECIPE_CACHE_DIR'' = Some c"
    and "fetch lib url = Inr b"
    and "(\<exists>r. json_loads lib b = Inl (ValueError r)) \<and>
         (gzip_read lib b = Inl e \<or>
          (\<exists>raw. gzip_read lib b = Inr raw \<and> json_loads lib raw = Inl e)) \<or>
         json_loads lib b = Inl e \<and> \<not> is_ValueError e"
  shows "fst (get_g2m_info lib w url) = Inl e"
    and "outputs (snd (get_g2m_info lib w url)) = outputs w"
    and "env (snd (get_g2m_info lib w url)) = env w"
proof -
  let ?w = "snd (os_makedirs w (os_path_join c ''downloads''))"
  let ?p = "os_path_join (os_path_join c ''downloads'') ''meta''"
  let ?w' = "?w\<lparr>files := (files ?w)(?p \<mapsto> b)\<rparr>"
  have rf: "read_feed lib ?w' ?p = (Inl e, ?w')"
    by (rule read_feed_invalid [OF open_rb_written assms(3)])
  then have g: "get_g2m_info lib w url = (Inl e, ?w')"
    by (simp add: get_g2m_info_cached [OF assms(1)] download_and_resolve_fetched [OF assms(2)])
  show "fst (get_g2m_info lib w url) = Inl e" by (simp add: g)
  show "outputs (snd (get_g2m_info lib w url)) = outputs w"
    by (simp add: g os_makedirs_def)
  show "env (snd (get_g2m_info lib w url)) = env w" by (rule env_get_g2m_info)
qed

lemma build_key_str: "py_getitem x ''buildNumber'' = Inr (PyStr s) \<Longrightarrow> build_key x = int_of_str s"
  by (simp add: build_key_def)

lemma get_g2m_info_existing_dir:
  assumes "env w ''RECIPE_CACHE_DIR'' = Some c"
    and "os_path_join c ''downloads'' \<in> dirs w"
  shows "get_g2m_info lib w url =
     download_and_resolve lib w url (os_path_join (os_path_join c ''downloads'') ''meta'')"
  using assms by (simp add: get_g2m_info_def os_makedirs_def Let_def)

lemma get_g2m_info_decoded_outputs:
  assumes "env w ''RECIPE_CACHE_DIR'' = Some c"
    and "fetch lib url = Inr b"
    and "decodes lib b doc"
  shows "outputs (snd (get_g2m_info lib w url)) = outputs w @ [''Encoding: json''] \<or>
         outputs (snd (get_g2m_info lib w url)) = outputs w @ [''Encoding: gzip'']"
proof -
  let ?w = "snd (os_makedirs w (os_path_join c ''downloads''))"
  let ?p = "os_path_join (os_path_join c ''downloads'') ''meta''"
  let ?w' = "?w\<lparr>files := (files ?w)(?p \<mapsto> b)\<rparr>"
  obtain r w2 where rf: "read_feed lib ?w' ?p = (r, w2)"
    by (cases "read_feed lib ?w' ?p")
  from read_feed_decoded [OF open_rb_written assms(3), of ?w ?p] rf
  have r: "r = Inr doc"
    and w2: "w2 = self_output ?w' ''Encoding: json'' \<or> w2 = self_output ?w' ''Encoding: gzip''"
    by simp_all
  have "snd (get_g2m_info lib w url) = w2"
    using rf r
    by (simp add: get_g2m_info_cached [OF assms(1)] download_and_resolve_fetched [OF assms(2)])
  moreover have "outputs ?w' = outputs w" by (simp add: os_makedirs_def)
  ultimately show ?thesis using w2 by (auto simp: self_output_def)
qed

lemma build_key_invalid_literal:
  assumes "py_getitem y ''buildNumber'' = Inr (PyStr t)" and "build_key y = Inl e"
  shows "e = ValueError (InvalidLiteral t)"
  using assms by (auto simp: build_key_def int_of_str_def Let_def split: option.splits)

section \<open>The example feeds, evaluated\<close>

lemmas feed_defs =
  two_builds_feed_def two_builds_doc_def two_builds_gzip_def missing_url_feed_def
  missing_url_doc_def nine_ten_feed_def nine_ten_doc_def empty_builds_feed_def
  empty_builds_doc_def bad_number_feed_def bad_number_doc_def example_site_def
  example_documents_def example_library_def example_world_def

lemmas int_defs = int_of_str_def strip_def parse_unsigned_def digit_val_def is_space_def

lemma example_fetch:
  "fetch example_library ''https://feed.example/two'' = Inr two_builds_feed"
  "fetch example_library ''https://feed.example/two.gz'' = Inr two_builds_gzip"
  "fetch example_library ''https://feed.example/missing'' = Inr missing_url_feed"
  "fetch example_library ''https://feed.example/nine-ten'' = Inr nine_ten_feed"
  "fetch example_library ''https://feed.example/empty'' = Inr empty_builds_feed"
  "fetch example_library ''https://feed.example/bad'' = Inr bad_number_feed"
  "fetch example_library ''https://feed.example/hello'' = Inr ''hello''"
  "fetch example_library ''https://feed.example/blank'' = Inr []"
  by (simp_all add: example_library_def example_site_def)

lemma example_not_a_feed:
  "json_loads example_library ''hello'' = Inl (ValueError JSONDecodeError)"
  "gzip_read example_library ''hello'' = Inl (OSError BadGzipFile)"
  "json_loads example_library [] = Inl (ValueError JSONDecodeError)"
  "gzip_read example_library [] = Inr []"
  by (simp_all add: feed_defs)

lemma deep_not_a_feed:
  "fetch deep_library url = Inr deep_feed"
  "json_loads deep_library deep_feed = Inl (Raised ''RecursionError'')"
  by (simp_all add: deep_library_def)

lemma example_decodes:
  "decodes example_library two_builds_feed two_builds_doc"
  "decodes example_library two_builds_gzip two_builds_doc"
  "decodes example_library missing_url_feed missing_url_doc"
  "decodes example_library nine_ten_feed nine_ten_doc"
  "decodes example_library empty_builds_feed empty_builds_doc"
  "decodes example_library bad_number_feed bad_number_doc"
  by (simp_all add: decodes_def feed_defs)

lemma example_env: "env example_world ''RECIPE_CACHE_DIR'' = Some ''/cache''"
  by (simp add: example_world_def)

lemma latest_release_two_builds:
  "latest_release lib two_builds_doc =
     Inr (''https://cdn.example.com/1050/GoToMeeting.dmg'', ''1050'')"
  by (simp add: latest_release_def py_max_def build_key_def int_defs set_last_def
      two_builds_doc_def)

lemma latest_release_missing_url:
  "latest_release lib missing_url_doc = Inl (ProcessorError no_download_url)"
  by (simp add: latest_release_def py_max_def build_key_def int_defs missing_url_doc_def)

section \<open>The claims\<close>

text \<open>
  C1. Take a run that downloads a feed and decodes it, where \<^verbatim>\<open>activeBuilds\<close> is a
  non-empty list, every entry has a build number, a JSON string or integer that
  \<^verbatim>\<open>int\<close> accepts (\<open>ks\<close> are these numbers), and every entry with the greatest
  number has a non-empty string \<^verbatim>\<open>macDownloadUrl\<close>. Then \<^verbatim>\<open>get_g2m_info\<close> returns a
  pair: the last segment of its URL, split on the slash, is \<^verbatim>\<open>GoToMeeting.dmg\<close>, and
  its build string reads as the greatest build number of the feed. On the document with
  the builds 1000 and 1050 it returns \<^verbatim>\<open>https://cdn.example.com/1050/GoToMeeting.dmg\<close>
  and \<^verbatim>\<open>1050\<close>.
\<close>

theorem resolve_latest_build:
  assumes "env w ''RECIPE_CACHE_DIR'' = Some cache_dir"
    and "fetch lib url = Inr b"
    and "decodes lib b doc"
  shows "(\<forall>builds ks.
            py_getitem doc ''activeBuilds'' = Inr (PyList builds) \<and> builds \<noteq> [] \<and>
            map build_key builds = map Inr ks \<and>
            (\<forall>x\<in>set builds. \<forall>v. py_getitem x ''buildNumber'' = Inr v \<longrightarrow> is_str_or_int v) \<and>
            (\<forall>x\<in>set builds. build_key x = Inr (Max (set ks)) \<longrightarrow>
               (\<exists>u. py_get x ''macDownloadUrl'' = Inr (PyStr u) \<and> u \<noteq> [])) \<longrightarrow>
            (\<exists>u build. fst (get_g2m_info lib w url) = Inr (u, build) \<and>
               last (split_on CHR ''/'' u) = ''GoToMeeting.dmg'' \<and>
               int_of_str build = Inr (Max (set ks)))) \<and>
         (doc = two_builds_doc \<longrightarrow>
            fst (get_g2m_info lib w url) =
              Inr (''https://cdn.example.com/1050/GoToMeeting.dmg'', ''1050''))"
proof (intro conjI allI impI)
  fix builds ks
  assume a: "py_getitem doc ''activeBuilds'' = Inr (PyList builds) \<and> builds \<noteq> [] \<and>
            map build_key builds = map Inr ks \<and>
            (\<forall>x\<in>set builds. \<forall>v. py_getitem x ''buildNumber'' = Inr v \<longrightarrow> is_str_or_int v) \<and>
            (\<forall>x\<in>set builds. build_key x = Inr (Max (set ks)) \<longrightarrow>
               (\<exists>u. py_get x ''macDownloadUrl'' = Inr (PyStr u) \<and> u \<noteq> []))"
  then have doc: "py_getitem doc ''activeBuilds'' = Inr (PyList builds)"
    and ne: "builds \<noteq> []" and keys: "map build_key builds = map Inr ks"
    by simp_all
  from max_loop_None [OF keys ne] obtain m where
    m: "max_loop build_key None builds = Inr (Some (m, Max (set ks)))"
    "m \<in> set builds" "build_key m = Inr (Max (set ks))" by blast
  from a m(2,3) obtain u where
    u: "py_get m ''macDownloadUrl'' = Inr (PyStr u)" "u \<noteq> []" by blast
  from build_key_Inr [OF m(3)] obtain v where
    v: "py_getitem m ''buildNumber'' = Inr v" "py_int v = Inr (Max (set ks))" by blast
  from a m(2) v(1) have "is_str_or_int v" by blast
  then have "int_of_str (py_str (repr lib) v) = Inr (Max (set ks))"
    using v(2) by (rule int_of_py_str)
  moreover have "fst (get_g2m_info lib w url) = Inr (normalized_url u, py_str (repr lib) v)"
    by (simp add: get_g2m_info_decoded [OF assms]
        latest_release_selected [OF doc m(1) u v(1)])
  ultimately show "\<exists>u build. fst (get_g2m_info lib w url) = Inr (u, build) \<and>
      last (split_on CHR ''/'' u) = ''GoToMeeting.dmg'' \<and>
      int_of_str build = Inr (Max (set ks))"
    by (simp add: last_normalized_url)
next
  assume "doc = two_builds_doc"
  then have "latest_release lib doc =
      Inr (''https://cdn.example.com/1050/GoToMeeting.dmg'', ''1050'')"
    by (simp add: latest_release_def py_max_def build_key_def int_defs set_last_def
        two_builds_doc_def)
  then show "fst (get_g2m_info lib w url) =
      Inr (''https://cdn.example.com/1050/GoToMeeting.dmg'', ''1050'')"
    by (simp add: get_g2m_info_decoded [OF assms])
qed

theorem resolve_latest_build_witness:
  "env example_world ''RECIPE_CACHE_DIR'' = Some ''/cache'' \<and>
   fetch example_library ''https://feed.example/two'' = Inr two_builds_feed \<and>
   decodes example_library two_builds_feed two_builds_doc \<and>
   fst (get_g2m_info example_library example_world ''https://feed.example/two'') =
     Inr (''https://cdn.example.com/1050/GoToMeeting.dmg'', ''1050'') \<and>
   last (split_on CHR ''/'' ''https://cdn.example.com/1050/GoToMeeting.dmg'') = ''GoToMeeting.dmg'' \<and>
   int_of_str ''1050'' = Inr (Max (set [1000, 1050]))"
proof -
  let ?builds = "[PyDict [(''buildNumber'', PyStr ''1000''),
              (''macDownloadUrl'', PyStr ''https://cdn.example.com/1000/OldApp.dmg'')],
      PyDict [(''buildNumber'', PyStr ''1050''),
              (''macDownloadUrl'', PyStr ''https://cdn.example.com/1050/NewApp.dmg'')]]"
  have keys: "map build_key ?builds = map Inr [1000, 1050]"
    by (simp add: build_key_def int_defs)
  have doc: "py_getitem two_builds_doc ''activeBuilds'' = Inr (PyList ?builds)"
    by (simp add: two_builds_doc_def)
  have plain: "\<forall>x\<in>set ?builds. \<forall>v. py_getitem x ''buildNumber'' = Inr v \<longrightarrow> is_str_or_int v"
    by auto
  have top: "\<forall>x\<in>set ?builds. build_key x = Inr (Max (set [1000, 1050])) \<longrightarrow>
           (\<exists>u. py_get x ''macDownloadUrl'' = Inr (PyStr u) \<and> u \<noteq> [])"
    by (simp add: build_key_def int_defs)
  note t = resolve_latest_build [OF example_env example_fetch(1) example_decodes(1)]
  from t have e: "fst (get_g2m_info example_library example_world ''https://feed.example/two'') =
     Inr (''https://cdn.example.com/1050/GoToMeeting.dmg'', ''1050'')" by simp
  from t doc keys plain top
  have "\<exists>u build.
      fst (get_g2m_info example_library example_world ''https://feed.example/two'') = Inr (u, build) \<and>
      last (split_on CHR ''/'' u) = ''GoToMeeting.dmg'' \<and>
      int_of_str build = Inr (Max (set [1000, 1050]))"
    by blast
  with e show ?thesis
    using example_env example_fetch(1) example_decodes(1) by simp
qed

text \<open>
  C2. When every entry with the greatest build number has no usable
  \<^verbatim>\<open>macDownloadUrl\<close> (the key is absent, so that \<^verbatim>\<open>get\<close> gives \<^verbatim>\<open>None\<close>, or the
  value is empty or otherwise false), \<^verbatim>\<open>get_g2m_info\<close> raises the
  \<^verbatim>\<open>ProcessorError\<close> about the missing URL, whatever URLs the other entries have.
\<close>

theorem resolve_no_download_url:
  assumes "env w ''RECIPE_CACHE_DIR'' = Some cache_dir"
    and "fetch lib url = Inr b"
    and "decodes lib b doc"
    and "py_getitem doc ''activeBuilds'' = Inr (PyList builds)"
    and "builds \<noteq> []"
    and "map build_key builds = map Inr ks"
    and "\<forall>x\<in>set builds. build_key x = Inr (Max (set ks)) \<longrightarrow>
           (\<exists>g. py_get x ''macDownloadUrl'' = Inr g \<and> \<not> py_truthy g)"
  shows "fst (get_g2m_info lib w url) = Inl (ProcessorError no_download_url)"
proof -
  from max_loop_None [OF assms(6) assms(5)] obtain m where
    m: "max_loop build_key None builds = Inr (Some (m, Max (set ks)))"
    "m \<in> set builds" "build_key m = Inr (Max (set ks))" by blast
  from assms(7) m(2,3) obtain g where
    g: "py_get m ''macDownloadUrl'' = Inr g" "\<not> py_truthy g" by blast
  show ?thesis
    by (simp add: get_g2m_info_decoded [OF assms(1-3)]
        latest_release_no_url [OF assms(4) m(1) g])
qed

theorem resolve_no_download_url_witness:
  "fetch example_library ''https://feed.example/missing'' = Inr missing_url_feed \<and>
   decodes example_library missing_url_feed missing_url_doc \<and>
   py_get (PyDict [(''buildNumber'', PyStr ''1000''),
      (''macDownloadUrl'', PyStr ''https://cdn.example.com/1000/App.dmg'')]) ''macDownloadUrl'' =
     Inr (PyStr ''https://cdn.example.com/1000/App.dmg'') \<and>
   py_get (PyDict [(''buildNumber'', PyStr ''1050'')]) ''macDownloadUrl'' = Inr PyNone \<and>
   fst (get_g2m_info example_library example_world ''https://feed.example/missing'') =
     Inl (ProcessorError no_download_url)"
proof -
  let ?builds = "[PyDict [(''buildNumber'', PyStr ''1000''),
              (''macDownloadUrl'', PyStr ''https://cdn.example.com/1000/App.dmg'')],
      PyDict [(''buildNumber'', PyStr ''1050'')]]"
  have keys: "map build_key ?builds = map Inr [1000, 1050]"
    by (simp add: build_key_def int_defs)
  have doc: "py_getitem missing_url_doc ''activeBuilds'' = Inr (PyList ?builds)"
    by (simp add: missing_url_doc_def)
  have top: "\<forall>x\<in>set ?builds. build_key x = Inr (Max (set [1000, 1050])) \<longrightarrow>
           (\<exists>g. py_get x ''macDownloadUrl'' = Inr g \<and> \<not> py_truthy g)"
    by (simp add: build_key_def int_defs)
  from resolve_no_download_url
    [OF example_env example_fetch(3) example_decodes(3) doc _ keys top]
  show ?thesis
    using example_fetch(3) example_decodes(3) by simp
qed

text \<open>
  C3, amended. When the downloaded bytes are neither JSON nor gzip-compressed JSON,
  \<^verbatim>\<open>get_g2m_info\<close> fails with the exception that the decoding raised, passed on as it
  is: the exception of the gzip attempt (the gzip reader's, or that of \<^verbatim>\<open>json.loads\<close>
  on the decompressed bytes) when the plain reading raised a \<^verbatim>\<open>ValueError\<close>, and the
  exception of the plain reading itself, with no gzip attempt, when it raised anything
  else. The code wraps nothing and raises no error of its own here. No \<^verbatim>\<open>Encoding\<close>
  line is printed.
\<close>

theorem invalid_feed_propagates:
  assumes "env w ''RECIPE_CACHE_DIR'' = Some cache_dir"
    and "fetch lib url = Inr b"
    and "(\<exists>r. json_loads lib b = Inl (ValueError r)) \<and>
         (gzip_read lib b = Inl e \<or>
          (\<exists>raw. gzip_read lib b = Inr raw \<and> json_loads lib raw = Inl e)) \<or>
         json_loads lib b = Inl e \<and> \<not> is_ValueError e"
  shows "fst (get_g2m_info lib w url) = Inl e \<and>
         outputs (snd (get_g2m_info lib w url)) = outputs w"
  using get_g2m_info_invalid(1,2) [OF assms] by simp

theorem invalid_feed_propagates_witness:
  "fst (get_g2m_info example_library example_world ''https://feed.example/hello'') =
     Inl (OSError BadGzipFile) \<and>
   outputs (snd (get_g2m_info example_library example_world ''https://feed.example/hello'')) = [] \<and>
   fst (get_g2m_info example_library example_world ''https://feed.example/blank'') =
     Inl (ValueError JSONDecodeError) \<and>
   fst (get_g2m_info deep_library example_world ''https://feed.example/deep'') =
     Inl (Raised ''RecursionError'') \<and>
   outputs (snd (get_g2m_info deep_library example_world ''https://feed.example/deep'')) = []"
proof -
  have hello:
    "(\<exists>r. json_loads example_library ''hello'' = Inl (ValueError r)) \<and>
     (gzip_read example_library ''hello'' = Inl (OSError BadGzipFile) \<or>
      (\<exists>raw. gzip_read example_library ''hello'' = Inr raw \<and>
         json_loads example_library raw = Inl (OSError BadGzipFile))) \<or>
     json_loads example_library ''hello'' = Inl (OSError BadGzipFile) \<and>
       \<not> is_ValueError (OSError BadGzipFile)"
    by (simp add: example_not_a_feed)
  have blank:
    "(\<exists>r. json_loads example_library [] = Inl (ValueError r)) \<and>
     (gzip_read example_library [] = Inl (ValueError JSONDecodeError) \<or>
      (\<exists>raw. gzip_read example_library [] = Inr raw \<and>
         json_loads example_library raw = Inl (ValueError JSONDecodeError))) \<or>
     json_loads example_library [] = Inl (ValueError JSONDecodeError) \<and>
       \<not> is_ValueError (ValueError JSONDecodeError)"
    by (simp add: example_not_a_feed)
  have deep:
    "(\<exists>r. json_loads deep_library deep_feed = Inl (ValueError r)) \<and>
     (gzip_read deep_library deep_feed = Inl (Raised ''RecursionError'') \<or>
      (\<exists>raw. gzip_read deep_library deep_feed = Inr raw \<and>
         json_loads deep_library raw = Inl (Raised ''RecursionError''))) \<or>
     json_loads deep_library deep_feed = Inl (Raised ''RecursionError'') \<and>
       \<not> is_ValueError (Raised ''RecursionError'')"
    by (simp add: deep_not_a_feed)
  from invalid_feed_propagates [OF example_env example_fetch(7) hello]
    invalid_feed_propagates [OF example_env example_fetch(8) blank]
    invalid_feed_propagates [OF example_env deep_not_a_feed(1) deep]
  show ?thesis by (simp add: example_world_def)
qed

text \<open>
  C3 as it was written says that such a run fails with one descriptive error, the
  invalid feed format, and with no other kind of failure. Two inputs that are neither
  JSON nor gzip-compressed JSON: on the text \<^verbatim>\<open>hello\<close> the run fails with the
  \<^verbatim>\<open>OSError\<close> of the gzip reader, on the empty file with the \<^verbatim>\<open>ValueError\<close> of
  \<^verbatim>\<open>json.loads\<close>, the class of exception that the scan raises as well. They are two
  different exceptions of the libraries, and neither is an error of the processor.
\<close>

theorem invalid_feed_format_counterexample:
  "json_loads example_library ''hello'' = Inl (ValueError JSONDecodeError) \<and>
   gzip_read example_library ''hello'' = Inl (OSError BadGzipFile) \<and>
   fst (get_g2m_info example_library example_world ''https://feed.example/hello'') =
     Inl (OSError BadGzipFile) \<and>
   json_loads example_library [] = Inl (ValueError JSONDecodeError) \<and>
   gzip_read example_library [] = Inr [] \<and>
   fst (get_g2m_info example_library example_world ''https://feed.example/blank'') =
     Inl (ValueError JSONDecodeError) \<and>
   fst (get_g2m_info example_library example_world ''https://feed.example/hello'') \<noteq>
     fst (get_g2m_info example_library example_world ''https://feed.example/blank'')"
proof -
  have "fst (get_g2m_info example_library example_world ''https://feed.example/hello'') =
      Inl (OSError BadGzipFile)"
    by (rule get_g2m_info_invalid(1) [OF example_env example_fetch(7)])
      (simp add: example_not_a_feed)
  moreover
  have "fst (get_g2m_info example_library example_world ''https://feed.example/blank'') =
      Inl (ValueError JSONDecodeError)"
    by (rule get_g2m_info_invalid(1) [OF example_env example_fetch(8)])
      (simp add: example_not_a_feed)
  ultimately show ?thesis by (simp add: example_not_a_feed)
qed

text \<open>
  C4. Let \<open>b\<close> be valid JSON and \<open>z\<close> its gzip compression: the gzip reader
  gives \<open>b\<close> back, and \<open>z\<close> itself is not JSON. A run that downloads \<open>z\<close>
  returns exactly what a run that downloads \<open>b\<close> returns, the pair or the exception,
  and leaves the same \<^verbatim>\<open>self.env\<close>.
\<close>

theorem gzip_same_result:
  assumes "json_loads lib b = Inr doc"
    and "gzip_read lib z = Inr b"
    and "json_loads lib z = Inl (ValueError r)"
    and "fetch lib url_z = Inr z"
    and "fetch lib url_b = Inr b"
  shows "fst (get_g2m_info lib w url_z) = fst (get_g2m_info lib w url_b) \<and>
         env (snd (get_g2m_info lib w url_z)) = env (snd (get_g2m_info lib w url_b))"
proof (cases "env w ''RECIPE_CACHE_DIR''")
  case None
  then show ?thesis by (simp add: get_g2m_info_def)
next
  case (Some c)
  have "decodes lib z doc" using assms(1-3) by (simp add: decodes_def)
  moreover have "decodes lib b doc" using assms(1) by (simp add: decodes_def)
  ultimately show ?thesis
    by (simp add: get_g2m_info_decoded [OF Some assms(4)] get_g2m_info_decoded [OF Some assms(5)]
        env_get_g2m_info)
qed

theorem gzip_same_result_witness:
  "json_loads example_library two_builds_feed = Inr two_builds_doc \<and>
   gzip_read example_library two_builds_gzip = Inr two_builds_feed \<and>
   json_loads example_library two_builds_gzip = Inl (ValueError JSONDecodeError) \<and>
   fst (get_g2m_info example_library example_world ''https://feed.example/two.gz'') =
     fst (get_g2m_info example_library example_world ''https://feed.example/two'') \<and>
   fst (get_g2m_info example_library example_world ''https://feed.example/two.gz'') =
     Inr (''https://cdn.example.com/1050/GoToMeeting.dmg'', ''1050'')"
proof -
  have j: "json_loads example_library two_builds_feed = Inr two_builds_doc"
    by (simp add: feed_defs)
  have g: "gzip_read example_library two_builds_gzip = Inr two_builds_feed"
    by (simp add: feed_defs)
  have n: "json_loads example_library two_builds_gzip = Inl (ValueError JSONDecodeError)"
    by (simp add: feed_defs)
  have "latest_release example_library two_builds_doc =
      Inr (''https://cdn.example.com/1050/GoToMeeting.dmg'', ''1050'')"
    by (simp add: latest_release_def py_max_def build_key_def int_defs set_last_def
        two_builds_doc_def)
  then have "fst (get_g2m_info example_library example_world ''https://feed.example/two'') =
      Inr (''https://cdn.example.com/1050/GoToMeeting.dmg'', ''1050'')"
    by (simp add: get_g2m_info_decoded [OF example_env example_fetch(1) example_decodes(1)])
  with gzip_same_result [OF j g n example_fetch(2) example_fetch(1), of example_world]
  show ?thesis using j g n by simp
qed

text \<open>
  C5. A feed with the two entries \<^verbatim>\<open>"9"\<close> and \<^verbatim>\<open>"10"\<close>, in either order: the keys
  of the scan are the integers 9 and 10, \<^verbatim>\<open>max\<close> picks the entry \<^verbatim>\<open>"10"\<close>, and the
  run returns the URL of that entry, normalised, with the build \<^verbatim>\<open>10\<close>.
\<close>

theorem numeric_build_order:
  assumes "env w ''RECIPE_CACHE_DIR'' = Some cache_dir"
    and "fetch lib url = Inr b"
    and "decodes lib b doc"
    and "py_getitem doc ''activeBuilds'' = Inr (PyList builds)"
    and "builds = [e9, e10] \<or> builds = [e10, e9]"
    and "py_getitem e9 ''buildNumber'' = Inr (PyStr ''9'')"
    and "py_getitem e10 ''buildNumber'' = Inr (PyStr ''10'')"
    and "py_get e10 ''macDownloadUrl'' = Inr (PyStr u)"
    and "u \<noteq> []"
  shows "build_key e9 = Inr 9 \<and> build_key e10 = Inr 10 \<and>
         py_max build_key (PyList builds) = Inr e10 \<and>
         fst (get_g2m_info lib w url) = Inr (normalized_url u, ''10'')"
proof -
  have k9: "build_key e9 = Inr 9"
    by (simp add: build_key_str [OF assms(6)] int_defs)
  have k10: "build_key e10 = Inr 10"
    by (simp add: build_key_str [OF assms(7)] int_defs)
  from assms(5) k9 k10 have m: "max_loop build_key None builds = Inr (Some (e10, 10))"
    by auto
  then have "py_max build_key (PyList builds) = Inr e10"
    by (simp add: py_max_def)
  moreover have "fst (get_g2m_info lib w url) = Inr (normalized_url u, ''10'')"
    by (simp add: get_g2m_info_decoded [OF assms(1-3)]
        latest_release_selected [OF assms(4) m assms(8,9,7)])
  ultimately show ?thesis using k9 k10 by simp
qed

theorem numeric_build_order_witness:
  "fetch example_library ''https://feed.example/nine-ten'' = Inr nine_ten_feed \<and>
   decodes example_library nine_ten_feed nine_ten_doc \<and>
   fst (get_g2m_info example_library example_world ''https://feed.example/nine-ten'') =
     Inr (''https://cdn.example.com/10/GoToMeeting.dmg'', ''10'')"
proof -
  let ?e10 = "PyDict [(''buildNumber'', PyStr ''10''),
                (''macDownloadUrl'', PyStr ''https://cdn.example.com/10/App.dmg'')]"
  let ?e9 = "PyDict [(''buildNumber'', PyStr ''9''),
                (''macDownloadUrl'', PyStr ''https://cdn.example.com/9/App.dmg'')]"
  have doc: "py_getitem nine_ten_doc ''activeBuilds'' = Inr (PyList [?e10, ?e9])"
    by (simp add: nine_ten_doc_def)
  have "fst (get_g2m_info example_library example_world ''https://feed.example/nine-ten'') =
      Inr (normalized_url ''https://cdn.example.com/10/App.dmg'', ''10'')"
    using numeric_build_order [OF example_env example_fetch(4) example_decodes(4) doc,
        of ?e9 ?e10 "''https://cdn.example.com/10/App.dmg''"]
    by simp
  then show ?thesis
    using example_fetch(4) example_decodes(4) by (simp add: normalized_url_def)
qed

text \<open>
  C6. \<^verbatim>\<open>main\<close> either fails, with the exception of \<^verbatim>\<open>get_g2m_info\<close>, and leaves
  \<^verbatim>\<open>self.env\<close> as it was, or it succeeds and has written both \<^verbatim>\<open>url\<close> and
  \<^verbatim>\<open>build\<close>, and nothing else of \<^verbatim>\<open>self.env\<close>. No run sets exactly one of them.
\<close>

theorem main_all_or_nothing:
  "(\<exists>e. fst (main lib default_url w) = Inl e \<and>
        fst (get_g2m_info lib w (case env w ''base_url'' of None \<Rightarrow> default_url | Some v \<Rightarrow> v)) =
          Inl e \<and>
        env (snd (main lib default_url w)) = env w) \<or>
   (\<exists>u build. fst (main lib default_url w) = Inr () \<and>
        fst (get_g2m_info lib w (case env w ''base_url'' of None \<Rightarrow> default_url | Some v \<Rightarrow> v)) =
          Inr (u, build) \<and>
        env (snd (main lib default_url w)) = (env w)(''url'' \<mapsto> u, ''build'' \<mapsto> build))"
proof -
  let ?url = "case env w ''base_url'' of None \<Rightarrow> default_url | Some v \<Rightarrow> v"
  obtain r w1 where g: "get_g2m_info lib w ?url = (r, w1)"
    by (cases "get_g2m_info lib w ?url")
  from env_get_g2m_info [of lib w ?url] g have e: "env w1 = env w" by simp
  show ?thesis
  proof (cases r)
    case (Inl x)
    with g e show ?thesis by (simp add: main_def)
  next
    case (Inr p)
    obtain u build where "p = (u, build)" by (cases p)
    with Inr g e show ?thesis
      by (simp add: main_def Let_def self_output_def)
  qed
qed

theorem main_all_or_nothing_witness:
  "fst (main example_library ''https://feed.example/two'' example_world) = Inr () \<and>
   env (snd (main example_library ''https://feed.example/two'' example_world)) ''url'' =
     Some ''https://cdn.example.com/1050/GoToMeeting.dmg'' \<and>
   env (snd (main example_library ''https://feed.example/two'' example_world)) ''build'' =
     Some ''1050'' \<and>
   fst (main example_library ''https://feed.example/missing'' example_world) =
     Inl (ProcessorError no_download_url) \<and>
   env (snd (main example_library ''https://feed.example/missing'' example_world)) ''url'' = None \<and>
   env (snd (main example_library ''https://feed.example/missing'' example_world)) ''build'' = None"
proof -
  have b: "env example_world ''base_url'' = None" "env example_world ''url'' = None"
    "env example_world ''build'' = None"
    by (simp_all add: example_world_def)
  have two: "fst (get_g2m_info example_library example_world ''https://feed.example/two'') =
      Inr (''https://cdn.example.com/1050/GoToMeeting.dmg'', ''1050'')"
    by (simp add: get_g2m_info_decoded [OF example_env example_fetch(1) example_decodes(1)]
        latest_release_def py_max_def build_key_def int_defs set_last_def two_builds_doc_def)
  have missing: "fst (get_g2m_info example_library example_world ''https://feed.example/missing'') =
      Inl (ProcessorError no_download_url)"
    by (simp add: get_g2m_info_decoded [OF example_env example_fetch(3) example_decodes(3)]
        latest_release_def py_max_def build_key_def int_defs set_last_def missing_url_doc_def)
  from main_all_or_nothing [of example_library "''https://feed.example/two''" example_world]
    main_all_or_nothing [of example_library "''https://feed.example/missing''" example_world]
  show ?thesis using b two missing by auto
qed

text \<open>
  C7, amended. On a Mac whose system version is below 10.13.0 the module takes
  component 0 of the resolver's answer for \<^verbatim>\<open>builds.cdn.getgo.com\<close>, the primary host
  name, as \<^verbatim>\<open>HOSTNAME\<close>, and builds the default feed URL from it.
\<close>

theorem legacy_hostname_is_primary_name:
  assumes "is_mac p"
    and "version_less p (mac_ver p) ''10.13.0''"
    and "gethostbyname_ex p ''builds.cdn.getgo.com'' = Inr (hostname, aliaslist, ipaddrlist)"
  shows "HOSTNAME p = Inr hostname \<and>
         BASE_URL p = Inr (''https://'' @ hostname @ ''/g2mupdater/live/config.json'')"
  using assms by (simp add: HOSTNAME_def BASE_URL_def)

theorem legacy_hostname_is_primary_name_witness:
  "is_mac legacy_mac \<and>
   version_less legacy_mac (mac_ver legacy_mac) ''10.13.0'' \<and>
   gethostbyname_ex legacy_mac ''builds.cdn.getgo.com'' =
     Inr (''edge.cdn.example.net'', [''builds.cdn.getgo.com''], [''203.0.113.7'']) \<and>
   HOSTNAME legacy_mac = Inr ''edge.cdn.example.net'' \<and>
   BASE_URL legacy_mac = Inr (''https://'' @ ''edge.cdn.example.net'' @ ''/g2mupdater/live/config.json'')"
proof -
  have a: "is_mac legacy_mac" by (simp add: legacy_mac_def)
  have b: "version_less legacy_mac (mac_ver legacy_mac) ''10.13.0''" by (simp add: legacy_mac_def)
  have c: "gethostbyname_ex legacy_mac ''builds.cdn.getgo.com'' =
     Inr (''edge.cdn.example.net'', [''builds.cdn.getgo.com''], [''203.0.113.7''])"
    by (simp add: legacy_mac_def)
  from legacy_hostname_is_primary_name [OF a b c] a b c show ?thesis by simp
qed

text \<open>
  C7 as it was written says that \<^verbatim>\<open>HOSTNAME\<close> is then a literal IP address. On a
  resolver answer whose primary name is not among its addresses, \<^verbatim>\<open>HOSTNAME\<close> is the
  name and none of the addresses.
\<close>

theorem legacy_hostname_is_address_counterexample:
  "is_mac legacy_mac \<and>
   version_less legacy_mac (mac_ver legacy_mac) ''10.13.0'' \<and>
   gethostbyname_ex legacy_mac ''builds.cdn.getgo.com'' =
     Inr (''edge.cdn.example.net'', [''builds.cdn.getgo.com''], [''203.0.113.7'']) \<and>
   HOSTNAME legacy_mac = Inr ''edge.cdn.example.net'' \<and>
   BASE_URL legacy_mac = Inr ''https://edge.cdn.example.net/g2mupdater/live/config.json'' \<and>
   ''edge.cdn.example.net'' \<notin> set [''203.0.113.7'']"
  by (simp add: legacy_mac_def HOSTNAME_def BASE_URL_def)

text \<open>
  C8. When the download directory is there already, \<^verbatim>\<open>os.makedirs\<close> raises
  \<^verbatim>\<open>FileExistsError\<close>, the exception is dropped, and the run goes on with the download.
  The run is, in its result and its final state, the run from the state without the
  directory, in which \<^verbatim>\<open>os.makedirs\<close> creates it.
\<close>

theorem existing_download_dir:
  assumes "env w ''RECIPE_CACHE_DIR'' = Some cache_dir"
    and "os_path_join cache_dir ''downloads'' \<in> dirs w"
  shows "os_makedirs w (os_path_join cache_dir ''downloads'') = (Inl (OSError FileExistsError), w) \<and>
         get_g2m_info lib w url =
           download_and_resolve lib w url
             (os_path_join (os_path_join cache_dir ''downloads'') ''meta'') \<and>
         get_g2m_info lib w url =
           get_g2m_info lib (w\<lparr>dirs := dirs w - {os_path_join cache_dir ''downloads''}\<rparr>) url"
proof -
  let ?d = "os_path_join cache_dir ''downloads''"
  let ?w0 = "w\<lparr>dirs := dirs w - {?d}\<rparr>"
  have "snd (os_makedirs ?w0 ?d) = w"
    using assms(2) by (simp add: os_makedirs_def insert_absorb)
  moreover have "env ?w0 ''RECIPE_CACHE_DIR'' = Some cache_dir" using assms(1) by simp
  ultimately have "get_g2m_info lib ?w0 url =
      download_and_resolve lib w url (os_path_join ?d ''meta'')"
    by (simp add: get_g2m_info_cached)
  then show ?thesis
    using assms by (simp add: get_g2m_info_existing_dir os_makedirs_def)
qed

theorem existing_download_dir_witness:
  "env cached_world ''RECIPE_CACHE_DIR'' = Some ''/cache'' \<and>
   os_path_join ''/cache'' ''downloads'' \<in> dirs cached_world \<and>
   os_makedirs cached_world ''/cache/downloads'' = (Inl (OSError FileExistsError), cached_world) \<and>
   fst (get_g2m_info example_library cached_world ''https://feed.example/two'') =
     Inr (''https://cdn.example.com/1050/GoToMeeting.dmg'', ''1050'')"
proof -
  have e: "env cached_world ''RECIPE_CACHE_DIR'' = Some ''/cache''"
    by (simp add: cached_world_def example_world_def)
  have d: "os_path_join ''/cache'' ''downloads'' \<in> dirs cached_world"
    by (simp add: cached_world_def example_world_def os_path_join_def)
  have j: "os_path_join ''/cache'' ''downloads'' = ''/cache/downloads''"
    by (simp add: os_path_join_def)
  have "fst (get_g2m_info example_library cached_world ''https://feed.example/two'') =
      Inr (''https://cdn.example.com/1050/GoToMeeting.dmg'', ''1050'')"
    by (simp add: get_g2m_info_decoded [OF e example_fetch(1) example_decodes(1)]
        latest_release_def py_max_def build_key_def int_defs set_last_def two_builds_doc_def)
  with existing_download_dir [OF e d, of example_library "''https://feed.example/two''"]
  show ?thesis using e d by (simp add: j)
qed

text \<open>
  C9. An empty \<^verbatim>\<open>activeBuilds\<close> list: the feed was fetched and decoded (one
  \<^verbatim>\<open>Encoding\<close> line is printed), then \<^verbatim>\<open>max\<close> raises the \<^verbatim>\<open>ValueError\<close> of an
  empty sequence, which nothing catches. It is no \<^verbatim>\<open>ProcessorError\<close>: neither a failed
  download nor a missing URL.
\<close>

theorem empty_active_builds:
  assumes "env w ''RECIPE_CACHE_DIR'' = Some cache_dir"
    and "fetch lib url = Inr b"
    and "decodes lib b doc"
    and "py_getitem doc ''activeBuilds'' = Inr (PyList [])"
  shows "fst (get_g2m_info lib w url) = Inl (ValueError EmptySequence) \<and>
         (\<forall>msg. fst (get_g2m_info lib w url) \<noteq> Inl (ProcessorError msg)) \<and>
         (outputs (snd (get_g2m_info lib w url)) = outputs w @ [''Encoding: json''] \<or>
          outputs (snd (get_g2m_info lib w url)) = outputs w @ [''Encoding: gzip''])"
proof -
  have "latest_release lib doc = Inl (ValueError EmptySequence)"
    using assms(4) by (simp add: latest_release_def py_max_def)
  then have "fst (get_g2m_info lib w url) = Inl (ValueError EmptySequence)"
    by (simp add: get_g2m_info_decoded [OF assms(1-3)])
  with get_g2m_info_decoded_outputs [OF assms(1-3)] show ?thesis by simp
qed

theorem empty_active_builds_witness:
  "fetch example_library ''https://feed.example/empty'' = Inr empty_builds_feed \<and>
   decodes example_library empty_builds_feed empty_builds_doc \<and>
   py_getitem empty_builds_doc ''activeBuilds'' = Inr (PyList []) \<and>
   fst (get_g2m_info example_library example_world ''https://feed.example/empty'') =
     Inl (ValueError EmptySequence) \<and>
   outputs (snd (get_g2m_info example_library example_world ''https://feed.example/empty'')) =
     [''Encoding: json'']"
proof -
  have doc: "py_getitem empty_builds_doc ''activeBuilds'' = Inr (PyList [])"
    by (simp add: empty_builds_doc_def)
  have "outputs (snd (get_g2m_info example_library example_world ''https://feed.example/empty'')) =
     [''Encoding: json'']"
    by (simp add: get_g2m_info_def os_makedirs_def download_and_resolve_def download_to_file_def
        read_feed_def open_rb_def self_output_def Let_def os_path_join_def feed_defs)
  with empty_active_builds [OF example_env example_fetch(5) example_decodes(5) doc]
  show ?thesis using example_fetch(5) example_decodes(5) doc by simp
qed

text \<open>
  C10. One entry whose \<^verbatim>\<open>buildNumber\<close> is a value that \<^verbatim>\<open>int\<close> rejects makes the
  run fail, wherever the entry stands and whatever the other entries are: the exception is
  the one the key function raised on some entry. When all entries carry a string
  \<^verbatim>\<open>buildNumber\<close> it is the \<^verbatim>\<open>ValueError\<close> of \<^verbatim>\<open>int\<close> on an invalid literal.
\<close>

theorem invalid_build_number_fails:
  assumes "env w ''RECIPE_CACHE_DIR'' = Some cache_dir"
    and "fetch lib url = Inr b"
    and "decodes lib b doc"
    and "py_getitem doc ''activeBuilds'' = Inr (PyList builds)"
    and "x \<in> set builds"
    and "py_getitem x ''buildNumber'' = Inr v"
    and "py_int v = Inl err"
  shows "(\<exists>e y. fst (get_g2m_info lib w url) = Inl e \<and> y \<in> set builds \<and> build_key y = Inl e) \<and>
         ((\<forall>y\<in>set builds. \<exists>t. py_getitem y ''buildNumber'' = Inr (PyStr t)) \<longrightarrow>
          (\<exists>t. fst (get_g2m_info lib w url) = Inl (ValueError (InvalidLiteral t))))"
proof -
  have "build_key x = Inl err"
    using assms(6,7) by (simp add: build_key_def)
  from max_loop_raises [of x builds build_key err None, OF assms(5) this] obtain e y where
    ey: "max_loop build_key None builds = Inl e" "y \<in> set builds" "build_key y = Inl e"
    by blast
  have r: "fst (get_g2m_info lib w url) = Inl e"
    by (simp add: get_g2m_info_decoded [OF assms(1-3)] latest_release_raises [OF assms(4) ey(1)])
  show ?thesis
  proof (intro conjI impI)
    show "\<exists>e y. fst (get_g2m_info lib w url) = Inl e \<and> y \<in> set builds \<and> build_key y = Inl e"
      using r ey by blast
  next
    assume "\<forall>y\<in>set builds. \<exists>t. py_getitem y ''buildNumber'' = Inr (PyStr t)"
    with ey(2) obtain t where "py_getitem y ''buildNumber'' = Inr (PyStr t)" by blast
    from build_key_invalid_literal [OF this ey(3)] r
    show "\<exists>t. fst (get_g2m_info lib w url) = Inl (ValueError (InvalidLiteral t))" by blast
  qed
qed

theorem invalid_build_number_fails_witness:
  "fetch example_library ''https://feed.example/bad'' = Inr bad_number_feed \<and>
   decodes example_library bad_number_feed bad_number_doc \<and>
   build_key (PyDict [(''buildNumber'', PyStr ''1050''),
      (''macDownloadUrl'', PyStr ''https://cdn.example.com/1050/App.dmg'')]) = Inr 1050 \<and>
   int_of_str ''beta'' = Inl (ValueError (InvalidLiteral ''beta'')) \<and>
   fst (get_g2m_info example_library example_world ''https://feed.example/bad'') =
     Inl (ValueError (InvalidLiteral ''beta''))"
proof -
  let ?good = "PyDict [(''buildNumber'', PyStr ''1050''),
      (''macDownloadUrl'', PyStr ''https://cdn.example.com/1050/App.dmg'')]"
  let ?bad = "PyDict [(''buildNumber'', PyStr ''beta'')]"
  have doc: "py_getitem bad_number_doc ''activeBuilds'' = Inr (PyList [?good, ?bad])"
    by (simp add: bad_number_doc_def)
  have bad: "int_of_str ''beta'' = Inl (ValueError (InvalidLiteral ''beta''))"
    by (simp add: int_defs)
  then have conv: "py_int (PyStr ''beta'') = Inl (ValueError (InvalidLiteral ''beta''))"
    by simp
  have good: "build_key ?good = Inr 1050"
    by (simp add: build_key_def int_defs)
  have kb: "build_key ?bad = Inl (ValueError (InvalidLiteral ''beta''))"
    by (simp add: build_key_def int_defs)
  from invalid_build_number_fails
    [OF example_env example_fetch(6) example_decodes(6) doc _ _ conv, of ?bad]
  have "\<exists>e y. fst (get_g2m_info example_library example_world ''https://feed.example/bad'') = Inl e \<and>
      y \<in> set [?good, ?bad] \<and> build_key y = Inl e" by simp
  then have "fst (get_g2m_info example_library example_world ''https://feed.example/bad'') =
     Inl (ValueError (InvalidLiteral ''beta''))"
    using good kb by auto
  then show ?thesis
    using example_fetch(6) example_decodes(6) good bad by simp
qed

end
